theory Spec2Isabelle
  imports Main
begin

section \<open>Exceptions, log records and external calls\<close>

text \<open>
  The values of this type are the instances of Python's \<open>Exception\<close> class that the
  program raises or receives from its libraries; every handler of the program is
  \<open>except Exception\<close>.  Exceptions outside that class (task cancellation, interpreter
  exit) are not covered.  Each constructor carries the text that \<open>str(e)\<close> returns.
\<close>

datatype exn =
    RuntimeError string
  | ValueError string
  | TypeError string
  | LibraryError string

fun str_exn :: "exn \<Rightarrow> string" where
  "str_exn (RuntimeError m) = m"
| "str_exn (ValueError m) = m"
| "str_exn (TypeError m) = m"
| "str_exn (LibraryError m) = m"

datatype level = INFO | WARNING | ERROR

text \<open>
  What the program does to the outside world, in order: a record handed to the logger,
  or a call into SQLAlchemy or redis-py.  The log texts and exception messages that the
  source writes in Russian are rendered in English here.
\<close>

datatype event =
    Log level string
  | CreateAsyncEngine string
  | AsyncSessionmaker
  | AsyncScopedSession
  | EngineDispose
  | SessionFactoryCall
  | SessionExecute string
  | SessionCommit
  | SessionRollback
  | SessionClose
  | ConnectionPoolFromUrl string
  | RedisFromPool
  | ClientPing
  | ClientAclose
  | PoolAclose

section \<open>Decimal text of an integer\<close>

definition digit_char :: "nat \<Rightarrow> char" where
  "digit_char d = char_of (48 + d)"

function str_nat :: "nat \<Rightarrow> string" where
  "str_nat n = (if n < 10 then [digit_char n] else str_nat (n div 10) @ [digit_char (n mod 10)])"
  by pat_completeness auto
termination
  by (relation "measure id") auto

declare str_nat.simps [simp del]

definition str_int :: "int \<Rightarrow> string" where
  "str_int i = (if i < 0 then CHR ''-'' # str_nat (nat (- i)) else str_nat (nat i))"

section \<open>Settings (app/core/config.py)\<close>

record Settings =
  ENVIRONMENT :: string
  APP_PORT :: int
  POSTGRES_USER :: string
  POSTGRES_PASSWORD :: string
  POSTGRES_DB :: string
  POSTGRES_HOST :: string
  POSTGRES_PORT :: int
  POSTGRES_POOL_SIZE :: int
  POSTGRES_MAX_OVERFLOW :: int
  POSTGRES_POOL_TIMEOUT :: int
  POSTGRES_ECHO :: bool
  POSTGRES_POOL_PRE_PING :: bool
  REDIS_HOST :: string
  REDIS_PORT :: int
  REDIS_PASSWORD :: "string option"
  REDIS_DB :: int
  REDIS_MAX_CONNECTIONS :: int
  REDIS_SOCKET_TIMEOUT :: int
  REDIS_SOCKET_CONNECT_TIMEOUT :: int
  SECRET_KEY :: string
  ACCESS_TOKEN_EXPIRE_MINUTES :: int

definition POSTGRES_DSN :: "Settings \<Rightarrow> string" where
  "POSTGRES_DSN self =
     ''postgresql+asyncpg://'' @ POSTGRES_USER self @ '':'' @ POSTGRES_PASSWORD self @ ''@''
       @ POSTGRES_HOST self @ '':'' @ str_int (POSTGRES_PORT self) @ ''/'' @ POSTGRES_DB self"

text \<open>\<open>if self.REDIS_PASSWORD:\<close> is false for \<open>None\<close> and for the empty string.\<close>

definition REDIS_DSN :: "Settings \<Rightarrow> string" where
  "REDIS_DSN self =
     (case REDIS_PASSWORD self of
        Some (c # cs) \<Rightarrow>
          ''redis://:'' @ (c # cs) @ ''@'' @ REDIS_HOST self @ '':'' @ str_int (REDIS_PORT self)
            @ ''/'' @ str_int (REDIS_DB self)
      | _ \<Rightarrow>
          ''redis://'' @ REDIS_HOST self @ '':'' @ str_int (REDIS_PORT self)
            @ ''/'' @ str_int (REDIS_DB self))"

text \<open>
  The validator of the field \<open>SECRET_KEY\<close>.  Its second argument is
  \<open>info.data.get('ENVIRONMENT')\<close>: the validated environment, or \<open>None\<close> when that
  field did not validate.
\<close>

definition validate_secret_key :: "string \<Rightarrow> string option \<Rightarrow> exn + string" where
  "validate_secret_key v data_ENVIRONMENT =
     (let environment = (case data_ENVIRONMENT of None \<Rightarrow> ''development'' | Some e \<Rightarrow> e)
      in if environment = ''production'' \<and> length v < 32
         then Inl (ValueError ''SECRET_KEY must be at least 32 characters in production'')
         else Inr v)"

text \<open>
  One entry of a pydantic \<open>ValidationError\<close>: the declared constraint that the value
  broke, or the exception that a field validator raised.
\<close>

datatype field_error =
    literal_error string
  | string_too_short nat
  | value_error exn

text \<open>\<open>Literal["development", "staging", "production"]\<close>\<close>

definition check_ENVIRONMENT :: "string \<Rightarrow> field_error + string" where
  "check_ENVIRONMENT v =
     (if v \<in> set [''development'', ''staging'', ''production''] then Inr v
      else Inl (literal_error v))"

text \<open>
  \<open>Field(min_length=32)\<close> is checked first; the validator declared with
  \<open>field_validator\<close> runs after it, and only on a value that passed.
\<close>

definition check_SECRET_KEY :: "string \<Rightarrow> string option \<Rightarrow> field_error + string" where
  "check_SECRET_KEY v data_ENVIRONMENT =
     (if length v < 32 then Inl (string_too_short 32)
      else (case validate_secret_key v data_ENVIRONMENT of
              Inl e \<Rightarrow> Inl (value_error e)
            | Inr v' \<Rightarrow> Inr v'))"

text \<open>
  The values given to the constructor (environment variables, the \<open>.env\<close> file):
  \<open>None\<close> for a field that is not given, which then takes its default unvalidated.
  The fields other than \<open>ENVIRONMENT\<close> and \<open>SECRET_KEY\<close> carry no constraint beyond
  their type, and are taken here as already of that type.
\<close>

record Settings_input =
  in_ENVIRONMENT :: "string option"
  in_APP_PORT :: "int option"
  in_POSTGRES_USER :: "string option"
  in_POSTGRES_PASSWORD :: "string option"
  in_POSTGRES_DB :: "string option"
  in_POSTGRES_HOST :: "string option"
  in_POSTGRES_PORT :: "int option"
  in_POSTGRES_POOL_SIZE :: "int option"
  in_POSTGRES_MAX_OVERFLOW :: "int option"
  in_POSTGRES_POOL_TIMEOUT :: "int option"
  in_POSTGRES_ECHO :: "bool option"
  in_POSTGRES_POOL_PRE_PING :: "bool option"
  in_REDIS_HOST :: "string option"
  in_REDIS_PORT :: "int option"
  in_REDIS_PASSWORD :: "string option"
  in_REDIS_DB :: "int option"
  in_REDIS_MAX_CONNECTIONS :: "int option"
  in_REDIS_SOCKET_TIMEOUT :: "int option"
  in_REDIS_SOCKET_CONNECT_TIMEOUT :: "int option"
  in_SECRET_KEY :: "string option"
  in_ACCESS_TOKEN_EXPIRE_MINUTES :: "int option"

definition no_input :: Settings_input where
  "no_input =
     \<lparr> in_ENVIRONMENT = None, in_APP_PORT = None, in_POSTGRES_USER = None,
       in_POSTGRES_PASSWORD = None, in_POSTGRES_DB = None, in_POSTGRES_HOST = None,
       in_POSTGRES_PORT = None, in_POSTGRES_POOL_SIZE = None, in_POSTGRES_MAX_OVERFLOW = None,
       in_POSTGRES_POOL_TIMEOUT = None, in_POSTGRES_ECHO = None,
       in_POSTGRES_POOL_PRE_PING = None, in_REDIS_HOST = None, in_REDIS_PORT = None,
       in_REDIS_PASSWORD = None, in_REDIS_DB = None, in_REDIS_MAX_CONNECTIONS = None,
       in_REDIS_SOCKET_TIMEOUT = None, in_REDIS_SOCKET_CONNECT_TIMEOUT = None,
       in_SECRET_KEY = None, in_ACCESS_TOKEN_EXPIRE_MINUTES = None \<rparr>"

definition or_default :: "'a option \<Rightarrow> 'a \<Rightarrow> 'a" where
  "or_default given d = (case given of None \<Rightarrow> d | Some v \<Rightarrow> v)"

text \<open>The two validated fields, in the order of their declaration.\<close>

definition field_ENVIRONMENT :: "Settings_input \<Rightarrow> field_error + string" where
  "field_ENVIRONMENT inp =
     (case in_ENVIRONMENT inp of None \<Rightarrow> Inr ''development'' | Some v \<Rightarrow> check_ENVIRONMENT v)"

definition field_SECRET_KEY :: "Settings_input \<Rightarrow> field_error + string" where
  "field_SECRET_KEY inp =
     (case in_SECRET_KEY inp of
        None \<Rightarrow> Inr ''your-secret-key-here-change-in-production''
      | Some v \<Rightarrow>
          check_SECRET_KEY v
            (case field_ENVIRONMENT inp of Inl _ \<Rightarrow> None | Inr e \<Rightarrow> Some e))"

definition field_errors :: "string \<Rightarrow> field_error + 'a \<Rightarrow> (string \<times> field_error) list" where
  "field_errors name r = (case r of Inl err \<Rightarrow> [(name, err)] | Inr _ \<Rightarrow> [])"

text \<open>
  \<open>Settings()\<close>: the settings, or the errors of every field that failed, each with the
  name of its field.
\<close>

definition Settings_init :: "Settings_input \<Rightarrow> (string \<times> field_error) list + Settings" where
  "Settings_init inp =
     (case (field_ENVIRONMENT inp, field_SECRET_KEY inp) of
        (Inr env, Inr key) \<Rightarrow>
          Inr \<lparr> ENVIRONMENT = env,
                APP_PORT = or_default (in_APP_PORT inp) 8000,
                POSTGRES_USER = or_default (in_POSTGRES_USER inp) ''postgres'',
                POSTGRES_PASSWORD = or_default (in_POSTGRES_PASSWORD inp) ''postgres'',
                POSTGRES_DB = or_default (in_POSTGRES_DB inp) ''fastapi_db'',
                POSTGRES_HOST = or_default (in_POSTGRES_HOST inp) ''localhost'',
                POSTGRES_PORT = or_default (in_POSTGRES_PORT inp) 5432,
                POSTGRES_POOL_SIZE = or_default (in_POSTGRES_POOL_SIZE inp) 20,
                POSTGRES_MAX_OVERFLOW = or_default (in_POSTGRES_MAX_OVERFLOW inp) 10,
                POSTGRES_POOL_TIMEOUT = or_default (in_POSTGRES_POOL_TIMEOUT inp) 30,
                POSTGRES_ECHO = or_default (in_POSTGRES_ECHO inp) False,
                POSTGRES_POOL_PRE_PING = or_default (in_POSTGRES_POOL_PRE_PING inp) True,
                REDIS_HOST = or_default (in_REDIS_HOST inp) ''localhost'',
                REDIS_PORT = or_default (in_REDIS_PORT inp) 6379,
                REDIS_PASSWORD = in_REDIS_PASSWORD inp,
                REDIS_DB = or_default (in_REDIS_DB inp) 0,
                REDIS_MAX_CONNECTIONS = or_default (in_REDIS_MAX_CONNECTIONS inp) 20,
                REDIS_SOCKET_TIMEOUT = or_default (in_REDIS_SOCKET_TIMEOUT inp) 5,
                REDIS_SOCKET_CONNECT_TIMEOUT = or_default (in_REDIS_SOCKET_CONNECT_TIMEOUT inp) 5,
                SECRET_KEY = key,
                ACCESS_TOKEN_EXPIRE_MINUTES = or_default (in_ACCESS_TOKEN_EXPIRE_MINUTES inp) 30 \<rparr>
      | (r1, r2) \<Rightarrow> Inl (field_errors ''ENVIRONMENT'' r1 @ field_errors ''SECRET_KEY'' r2))"

text \<open>\<open>get_settings()\<close> of a process that is given no value at all.\<close>

definition default_settings :: Settings where
  "default_settings = (case Settings_init no_input of Inr s \<Rightarrow> s)"

section \<open>DatabaseManager (app/core/database.py)\<close>

text \<open>An engine and a session factory are what their constructors were given.\<close>

record engine =
  url :: string
  echo :: bool
  pool_size :: int
  max_overflow :: int
  pool_timeout :: int
  pool_pre_ping :: bool

record sessionmaker =
  bind :: engine
  expire_on_commit :: bool
  autocommit :: bool
  autoflush :: bool

datatype session = AsyncSession sessionmaker

record DatabaseManager =
  db_engine :: "engine option"
  session_factory :: "sessionmaker option"
  scoped_session :: "sessionmaker option"
  db_initialized :: bool

text \<open>\<open>DatabaseManager.__init__\<close>\<close>

definition DatabaseManager_init :: DatabaseManager where
  "DatabaseManager_init =
     \<lparr> db_engine = None, session_factory = None, scoped_session = None, db_initialized = False \<rparr>"

text \<open>
  What each call into SQLAlchemy does when the program makes it: \<open>None\<close> when it
  returns, \<open>Some e\<close> when it raises \<open>e\<close>.
\<close>

record db_world =
  create_async_engine_raises :: "exn option"
  async_sessionmaker_raises :: "exn option"
  async_scoped_session_raises :: "exn option"
  dispose_raises :: "exn option"
  execute_raises :: "exn option"
  commit_raises :: "exn option"
  rollback_raises :: "exn option"
  close_raises :: "exn option"

definition db_init_failed :: "exn \<Rightarrow> event" where
  "db_init_failed e = Log ERROR (''Database initialization error: '' @ str_exn e)"

text \<open>
  \<open>DatabaseManager.initialize\<close>: the outcome (\<open>Inl e\<close> when \<open>e\<close> is raised), the manager
  afterwards, and the events in order.
\<close>

definition db_initialize ::
  "Settings \<Rightarrow> db_world \<Rightarrow> DatabaseManager \<Rightarrow> (exn + unit) \<times> DatabaseManager \<times> event list" where
  "db_initialize settings w self =
     (if db_initialized self then (Inr (), self, [Log WARNING ''Database already initialized''])
      else
        (case create_async_engine_raises w of
           Some e \<Rightarrow> (Inl e, self, [CreateAsyncEngine (POSTGRES_DSN settings), db_init_failed e])
         | None \<Rightarrow>
             (let eng = \<lparr> url = POSTGRES_DSN settings, echo = POSTGRES_ECHO settings,
                          pool_size = POSTGRES_POOL_SIZE settings,
                          max_overflow = POSTGRES_MAX_OVERFLOW settings,
                          pool_timeout = POSTGRES_POOL_TIMEOUT settings,
                          pool_pre_ping = POSTGRES_POOL_PRE_PING settings \<rparr>;
                  self1 = self\<lparr>db_engine := Some eng\<rparr>
              in (case async_sessionmaker_raises w of
                    Some e \<Rightarrow>
                      (Inl e, self1,
                       [CreateAsyncEngine (POSTGRES_DSN settings), AsyncSessionmaker,
                        db_init_failed e])
                  | None \<Rightarrow>
                      (let factory = \<lparr> bind = eng, expire_on_commit = False,
                                        autocommit = False, autoflush = False \<rparr>;
                           self2 = self1\<lparr>session_factory := Some factory\<rparr>
                       in (case async_scoped_session_raises w of
                             Some e \<Rightarrow>
                               (Inl e, self2,
                                [CreateAsyncEngine (POSTGRES_DSN settings), AsyncSessionmaker,
                                 AsyncScopedSession, db_init_failed e])
                           | None \<Rightarrow>
                               (Inr (),
                                self2\<lparr>scoped_session := Some factory, db_initialized := True\<rparr>,
                                [CreateAsyncEngine (POSTGRES_DSN settings), AsyncSessionmaker,
                                 AsyncScopedSession,
                                 Log INFO ''Database initialized successfully''])))))))"

text \<open>\<open>DatabaseManager.close\<close>\<close>

definition db_close :: "db_world \<Rightarrow> DatabaseManager \<Rightarrow> (exn + unit) \<times> DatabaseManager \<times> event list" where
  "db_close w self =
     (case db_engine self of
        None \<Rightarrow> (Inr (), self, [])
      | Some _ \<Rightarrow>
          (case dispose_raises w of
             Some e \<Rightarrow> (Inl e, self, [EngineDispose])
           | None \<Rightarrow>
               (Inr (), self\<lparr>db_initialized := False\<rparr>,
                [EngineDispose, Log INFO ''Database connections closed''])))"

text \<open>
  \<open>DatabaseManager.get_session\<close> is a generator under \<open>asynccontextmanager\<close>.  Entering the
  \<open>async with\<close> block runs it up to its \<open>yield\<close>: the check of the flag and the call of
  the session factory (calling \<open>None\<close> is a \<open>TypeError\<close>).
\<close>

definition db_not_initialized :: exn where
  "db_not_initialized = RuntimeError ''Database not initialized. Call initialize()''"

definition get_session_enter :: "DatabaseManager \<Rightarrow> (exn + session) \<times> event list" where
  "get_session_enter self =
     (if \<not> db_initialized self then (Inl db_not_initialized, [])
      else (case session_factory self of
              None \<Rightarrow> (Inl (TypeError ''NoneType object is not callable''), [SessionFactoryCall])
            | Some f \<Rightarrow> (Inr (AsyncSession f), [SessionFactoryCall])))"

text \<open>The \<open>finally\<close> clause: close the session; what \<open>close\<close> raises replaces the outcome.\<close>

definition session_finally :: "db_world \<Rightarrow> exn + 'a \<Rightarrow> (exn + 'a) \<times> event list" where
  "session_finally w r =
     (case close_raises w of
        None \<Rightarrow> (r, [SessionClose])
      | Some e \<Rightarrow> (Inl e, [SessionClose]))"

text \<open>
  The \<open>except Exception as e\<close> clause, then \<open>finally\<close>: roll back, log, raise \<open>e\<close> again;
  what \<open>rollback\<close> raises leaves the clause in place of \<open>e\<close>, before the log record.
\<close>

definition session_except :: "db_world \<Rightarrow> exn \<Rightarrow> (exn + 'a) \<times> event list" where
  "session_except w e =
     (case rollback_raises w of
        Some e2 \<Rightarrow>
          (let (r, evs) = session_finally w (Inl e2) in (r, SessionRollback # evs))
      | None \<Rightarrow>
          (let (r, evs) = session_finally w (Inl e)
           in (r, [SessionRollback, Log ERROR (''Database session error: '' @ str_exn e)] @ evs)))"

text \<open>
  Leaving the block resumes the generator after its \<open>yield\<close>, with the outcome of the
  caller's block: on a normal end \<open>commit\<close>, on an exception (of the block or of
  \<open>commit\<close>) the \<open>except\<close> clause, and \<open>finally\<close> in every case.
\<close>

definition get_session_exit :: "db_world \<Rightarrow> exn + 'a \<Rightarrow> (exn + 'a) \<times> event list" where
  "get_session_exit w body_result =
     (case body_result of
        Inl e \<Rightarrow> session_except w e
      | Inr v \<Rightarrow>
          (case commit_raises w of
             Some e \<Rightarrow> (let (r, evs) = session_except w e in (r, SessionCommit # evs))
           | None \<Rightarrow> (let (r, evs) = session_finally w (Inr v) in (r, SessionCommit # evs))))"

text \<open>
  \<open>async with self.get_session() as session: body\<close>, where \<open>body\<close> gives the outcome
  and the events of the caller's block for the session it is handed.
\<close>

definition with_get_session ::
  "db_world \<Rightarrow> DatabaseManager \<Rightarrow> (session \<Rightarrow> (exn + 'a) \<times> event list) \<Rightarrow> (exn + 'a) \<times> event list" where
  "with_get_session w self body =
     (case get_session_enter self of
        (Inl e, evs) \<Rightarrow> (Inl e, evs)
      | (Inr s, evs) \<Rightarrow>
          (let (r, evs_body) = body s;
               (r', evs_exit) = get_session_exit w r
           in (r', evs @ evs_body @ evs_exit)))"

text \<open>\<open>await session.execute(stmt)\<close>, its result discarded.\<close>

definition session_execute :: "db_world \<Rightarrow> string \<Rightarrow> session \<Rightarrow> (exn + unit) \<times> event list" where
  "session_execute w stmt s =
     (case execute_raises w of
        Some e \<Rightarrow> (Inl e, [SessionExecute stmt])
      | None \<Rightarrow> (Inr (), [SessionExecute stmt]))"

text \<open>\<open>DatabaseManager.health_check\<close>\<close>

definition db_health_check :: "db_world \<Rightarrow> DatabaseManager \<Rightarrow> (exn + bool) \<times> event list" where
  "db_health_check w self =
     (case with_get_session w self (session_execute w ''SELECT 1'') of
        (Inr _, evs) \<Rightarrow> (Inr True, evs)
      | (Inl e, evs) \<Rightarrow>
          (Inr False, evs @ [Log ERROR (''Database health check failed: '' @ str_exn e)]))"

text \<open>The states the global \<open>db_manager\<close> can be in.\<close>

inductive db_reachable :: "DatabaseManager \<Rightarrow> bool" where
  db_fresh: "db_reachable DatabaseManager_init"
| db_after_initialize:
    "db_reachable self \<Longrightarrow> db_initialize settings w self = (r, self', evs) \<Longrightarrow> db_reachable self'"
| db_after_close:
    "db_reachable self \<Longrightarrow> db_close w self = (r, self', evs) \<Longrightarrow> db_reachable self'"

text \<open>The states in which no call of \<open>initialize\<close> has returned normally yet.\<close>

inductive db_never_initialized :: "DatabaseManager \<Rightarrow> bool" where
  db_never_fresh: "db_never_initialized DatabaseManager_init"
| db_never_failed:
    "db_never_initialized self \<Longrightarrow> db_initialize settings w self = (Inl e, self', evs)
       \<Longrightarrow> db_never_initialized self'"
| db_never_close:
    "db_never_initialized self \<Longrightarrow> db_close w self = (r, self', evs)
       \<Longrightarrow> db_never_initialized self'"

section \<open>RedisManager (app/core/redis_client.py)\<close>

record ConnectionPool =
  pool_url :: string
  max_connections :: int
  socket_timeout :: int
  socket_connect_timeout :: int

datatype Redis = Redis_from_pool ConnectionPool

record RedisManager =
  pool :: "ConnectionPool option"
  client :: "Redis option"
  redis_initialized :: bool

text \<open>\<open>RedisManager.__init__\<close>\<close>

definition RedisManager_init :: RedisManager where
  "RedisManager_init = \<lparr> pool = None, client = None, redis_initialized = False \<rparr>"

text \<open>
  What each call into redis-py does when the program makes it; \<open>ping\<close> returns a
  truth value when it does not raise.
\<close>

record redis_world =
  from_url_raises :: "exn option"
  from_pool_raises :: "exn option"
  ping_result :: "exn + bool"
  client_aclose_raises :: "exn option"
  pool_aclose_raises :: "exn option"

definition redis_init_failed :: "exn \<Rightarrow> event" where
  "redis_init_failed e = Log ERROR (''Redis initialization error: '' @ str_exn e)"

text \<open>\<open>RedisManager.initialize\<close>\<close>

definition redis_initialize ::
  "Settings \<Rightarrow> redis_world \<Rightarrow> RedisManager \<Rightarrow> (exn + unit) \<times> RedisManager \<times> event list" where
  "redis_initialize settings w self =
     (if redis_initialized self then (Inr (), self, [Log WARNING ''Redis already initialized''])
      else
        (case from_url_raises w of
           Some e \<Rightarrow>
             (Inl e, self, [ConnectionPoolFromUrl (REDIS_DSN settings), redis_init_failed e])
         | None \<Rightarrow>
             (let p = \<lparr> pool_url = REDIS_DSN settings,
                        max_connections = REDIS_MAX_CONNECTIONS settings,
                        socket_timeout = REDIS_SOCKET_TIMEOUT settings,
                        socket_connect_timeout = REDIS_SOCKET_CONNECT_TIMEOUT settings \<rparr>;
                  self1 = self\<lparr>pool := Some p\<rparr>
              in (case from_pool_raises w of
                    Some e \<Rightarrow>
                      (Inl e, self1,
                       [ConnectionPoolFromUrl (REDIS_DSN settings), RedisFromPool,
                        redis_init_failed e])
                  | None \<Rightarrow>
                      (let self2 = self1\<lparr>client := Some (Redis_from_pool p)\<rparr>
                       in (case ping_result w of
                             Inl e \<Rightarrow>
                               (Inl e, self2,
                                [ConnectionPoolFromUrl (REDIS_DSN settings), RedisFromPool,
                                 ClientPing, redis_init_failed e])
                           | Inr _ \<Rightarrow>
                               (Inr (), self2\<lparr>redis_initialized := True\<rparr>,
                                [ConnectionPoolFromUrl (REDIS_DSN settings), RedisFromPool,
                                 ClientPing, Log INFO ''Redis initialized successfully''])))))))"

text \<open>\<open>if handle: await handle.aclose()\<close>, for the client and for the pool.\<close>

definition aclose_if_set :: "'h option \<Rightarrow> exn option \<Rightarrow> event \<Rightarrow> (exn + unit) \<times> event list" where
  "aclose_if_set handle raises ev =
     (case handle of
        None \<Rightarrow> (Inr (), [])
      | Some _ \<Rightarrow> (case raises of None \<Rightarrow> (Inr (), [ev]) | Some e \<Rightarrow> (Inl e, [ev])))"

text \<open>\<open>RedisManager.close\<close>: an exception of either \<open>aclose\<close> ends it before the flag is reset.\<close>

definition redis_close ::
  "redis_world \<Rightarrow> RedisManager \<Rightarrow> (exn + unit) \<times> RedisManager \<times> event list" where
  "redis_close w self =
     (case aclose_if_set (client self) (client_aclose_raises w) ClientAclose of
        (Inl e, evs1) \<Rightarrow> (Inl e, self, evs1)
      | (Inr _, evs1) \<Rightarrow>
          (case aclose_if_set (pool self) (pool_aclose_raises w) PoolAclose of
             (Inl e, evs2) \<Rightarrow> (Inl e, self, evs1 @ evs2)
           | (Inr _, evs2) \<Rightarrow>
               (Inr (), self\<lparr>redis_initialized := False\<rparr>,
                evs1 @ evs2 @ [Log INFO ''Redis connections closed''])))"

definition redis_not_initialized :: exn where
  "redis_not_initialized = RuntimeError ''Redis not initialized. Call initialize()''"

text \<open>\<open>RedisManager.get_client\<close>\<close>

definition get_client :: "RedisManager \<Rightarrow> exn + Redis" where
  "get_client self =
     (if \<not> redis_initialized self then Inl redis_not_initialized
      else (case client self of None \<Rightarrow> Inl redis_not_initialized | Some c \<Rightarrow> Inr c))"

text \<open>
  \<open>RedisManager.get_client_context\<close>, a generator under \<open>asynccontextmanager\<close>: the part
  before its \<open>yield\<close>, and the part that handles the outcome of the caller's block.
\<close>

definition get_client_context_enter :: "RedisManager \<Rightarrow> exn + Redis" where
  "get_client_context_enter self =
     (if \<not> redis_initialized self then Inl redis_not_initialized
      else (case client self of None \<Rightarrow> Inl redis_not_initialized | Some c \<Rightarrow> Inr c))"

definition get_client_context_exit :: "exn + 'a \<Rightarrow> (exn + 'a) \<times> event list" where
  "get_client_context_exit body_result =
     (case body_result of
        Inl e \<Rightarrow> (Inl e, [Log ERROR (''Redis operation error: '' @ str_exn e)])
      | Inr v \<Rightarrow> (Inr v, []))"

text \<open>\<open>RedisManager.health_check\<close>\<close>

definition redis_health_check :: "redis_world \<Rightarrow> RedisManager \<Rightarrow> (exn + bool) \<times> event list" where
  "redis_health_check w self =
     (case client self of
        None \<Rightarrow> (Inr False, [])
      | Some _ \<Rightarrow>
          (case ping_result w of
             Inr b \<Rightarrow> (Inr b, [ClientPing])
           | Inl e \<Rightarrow>
               (Inr False, [ClientPing, Log ERROR (''Redis health check failed: '' @ str_exn e)])))"

text \<open>The dependency \<open>get_redis\<close>, which reads the global \<open>redis_manager\<close>.\<close>

definition get_redis :: "RedisManager \<Rightarrow> exn + Redis" where
  "get_redis redis_manager =
     (case client redis_manager of
        None \<Rightarrow> Inl (RuntimeError ''Redis client not initialized'')
      | Some c \<Rightarrow> Inr c)"

text \<open>The states the global \<open>redis_manager\<close> can be in.\<close>

inductive redis_reachable :: "RedisManager \<Rightarrow> bool" where
  redis_fresh: "redis_reachable RedisManager_init"
| redis_after_initialize:
    "redis_reachable self \<Longrightarrow> redis_initialize settings w self = (r, self', evs)
       \<Longrightarrow> redis_reachable self'"
| redis_after_close:
    "redis_reachable self \<Longrightarrow> redis_close w self = (r, self', evs) \<Longrightarrow> redis_reachable self'"

text \<open>The states in which no call of \<open>initialize\<close> has returned normally yet.\<close>

inductive redis_never_initialized :: "RedisManager \<Rightarrow> bool" where
  redis_never_fresh: "redis_never_initialized RedisManager_init"
| redis_never_failed:
    "redis_never_initialized self \<Longrightarrow> redis_initialize settings w self = (Inl e, self', evs)
       \<Longrightarrow> redis_never_initialized self'"
| redis_never_close:
    "redis_never_initialized self \<Longrightarrow> redis_close w self = (r, self', evs)
       \<Longrightarrow> redis_never_initialized self'"

section \<open>Application (app/main.py)\<close>

text \<open>The two global managers.\<close>

record app =
  db_manager :: DatabaseManager
  redis_manager :: RedisManager

text \<open>
  The part of \<open>lifespan\<close> after its \<open>yield\<close>: one \<open>try\<close> block holds both calls of
  \<open>close\<close>, so an exception of the first call goes to the handler at once.
\<close>

definition lifespan_shutdown ::
  "db_world \<Rightarrow> redis_world \<Rightarrow> app \<Rightarrow> (exn + unit) \<times> app \<times> event list" where
  "lifespan_shutdown dw rw a =
     (case db_close dw (db_manager a) of
        (Inl e, db', evs1) \<Rightarrow>
          (Inr (), a\<lparr>db_manager := db'\<rparr>,
           [Log INFO ''Shutting down...''] @ evs1 @ [Log ERROR (''Shutdown error: '' @ str_exn e)])
      | (Inr _, db', evs1) \<Rightarrow>
          (case redis_close rw (redis_manager a) of
             (Inl e, redis', evs2) \<Rightarrow>
               (Inr (), a\<lparr>db_manager := db', redis_manager := redis'\<rparr>,
                [Log INFO ''Shutting down...''] @ evs1 @ evs2
                  @ [Log ERROR (''Shutdown error: '' @ str_exn e)])
           | (Inr _, redis', evs2) \<Rightarrow>
               (Inr (), a\<lparr>db_manager := db', redis_manager := redis'\<rparr>,
                [Log INFO ''Shutting down...''] @ evs1 @ evs2
                  @ [Log INFO ''Application shutdown complete''])))"

text \<open>
  The handler of \<open>GET /health\<close>, given the session and the client that the dependencies
  \<open>get_db\<close> and \<open>get_redis\<close> produced: \<open>health_status\<close> is a dictionary from text to text.
\<close>

definition health_check ::
  "Settings \<Rightarrow> db_world \<Rightarrow> redis_world \<Rightarrow> session \<Rightarrow> Redis
     \<Rightarrow> (exn + (string \<rightharpoonup> string)) \<times> event list" where
  "health_check settings dw rw db redis =
     (let health_status =
            [''status'' \<mapsto> ''healthy'', ''database'' \<mapsto> ''connected'', ''redis'' \<mapsto> ''connected'',
             ''environment'' \<mapsto> ENVIRONMENT settings];
          health_status =
            (case execute_raises dw of
               None \<Rightarrow> health_status(''database'' \<mapsto> ''connected'')
             | Some e \<Rightarrow>
                 health_status(''status'' \<mapsto> ''degraded'', ''database'' \<mapsto> ''error: '' @ str_exn e));
          health_status =
            (case ping_result rw of
               Inr _ \<Rightarrow> health_status(''redis'' \<mapsto> ''connected'')
             | Inl e \<Rightarrow>
                 health_status(''status'' \<mapsto> ''degraded'', ''redis'' \<mapsto> ''error: '' @ str_exn e))
      in (Inr health_status, [SessionExecute ''SELECT 1'', ClientPing]))"

text \<open>
  The status code of the response to a route declared without one: 200 when the
  handler returns, 500 when it raises.
\<close>

definition status_code :: "exn + 'a \<Rightarrow> nat" where
  "status_code r = (case r of Inr _ \<Rightarrow> 200 | Inl _ \<Rightarrow> 500)"

section \<open>Scenarios of the examples\<close>

text \<open>A database server and a cache server that answer every call.\<close>

definition db_up :: db_world where
  "db_up =
     \<lparr> create_async_engine_raises = None, async_sessionmaker_raises = None,
       async_scoped_session_raises = None, dispose_raises = None, execute_raises = None,
       commit_raises = None, rollback_raises = None, close_raises = None \<rparr>"

definition redis_up :: redis_world where
  "redis_up =
     \<lparr> from_url_raises = None, from_pool_raises = None, ping_result = Inr True,
       client_aclose_raises = None, pool_aclose_raises = None \<rparr>"

text \<open>The two managers after a startup with the default settings.\<close>

definition engine_started :: engine where
  "engine_started =
     \<lparr> url = POSTGRES_DSN default_settings, echo = POSTGRES_ECHO default_settings,
       pool_size = POSTGRES_POOL_SIZE default_settings,
       max_overflow = POSTGRES_MAX_OVERFLOW default_settings,
       pool_timeout = POSTGRES_POOL_TIMEOUT default_settings,
       pool_pre_ping = POSTGRES_POOL_PRE_PING default_settings \<rparr>"

definition factory_started :: sessionmaker where
  "factory_started =
     \<lparr> bind = engine_started, expire_on_commit = False, autocommit = False,
       autoflush = False \<rparr>"

definition db_started :: DatabaseManager where
  "db_started =
     \<lparr> db_engine = Some engine_started, session_factory = Some factory_started,
       scoped_session = Some factory_started, db_initialized = True \<rparr>"

definition pool_started :: ConnectionPool where
  "pool_started =
     \<lparr> pool_url = REDIS_DSN default_settings,
       max_connections = REDIS_MAX_CONNECTIONS default_settings,
       socket_timeout = REDIS_SOCKET_TIMEOUT default_settings,
       socket_connect_timeout = REDIS_SOCKET_CONNECT_TIMEOUT default_settings \<rparr>"

definition redis_started :: RedisManager where
  "redis_started =
     \<lparr> pool = Some pool_started, client = Some (Redis_from_pool pool_started),
       redis_initialized = True \<rparr>"

section \<open>Properties of Settings\<close>

lemma Settings_init_no_input: "Settings_init no_input = Inr default_settings"
  by (simp add: default_settings_def Settings_init_def no_input_def field_ENVIRONMENT_def
        field_SECRET_KEY_def)

lemma field_ENVIRONMENT_valid:
  assumes "env \<in> {''development'', ''staging'', ''production''}"
    and "in_ENVIRONMENT inp = Some env"
  shows "field_ENVIRONMENT inp = Inr env"
  using assms by (auto simp: field_ENVIRONMENT_def check_ENVIRONMENT_def)

text \<open>
  C8.  The cache connection string is the scheme, then the credential segment, then host,
  port and database index in that order.  The credential segment is absent when the
  password is \<open>None\<close> or empty, and is \<open>:password@\<close> otherwise.
\<close>

theorem REDIS_DSN_credential_segment:
  "(REDIS_PASSWORD s = None \<or> REDIS_PASSWORD s = Some [] \<longrightarrow>
      REDIS_DSN s =
        ''redis://'' @ REDIS_HOST s @ '':'' @ str_int (REDIS_PORT s) @ ''/'' @ str_int (REDIS_DB s))
   \<and> (\<forall>p. REDIS_PASSWORD s = Some p \<and> p \<noteq> [] \<longrightarrow>
      REDIS_DSN s =
        ''redis://'' @ ('':'' @ p @ ''@'') @ REDIS_HOST s @ '':'' @ str_int (REDIS_PORT s)
          @ ''/'' @ str_int (REDIS_DB s))"
proof (cases "REDIS_PASSWORD s")
  case None
  then show ?thesis by (simp add: REDIS_DSN_def)
next
  case (Some p)
  then show ?thesis by (cases p) (simp_all add: REDIS_DSN_def)
qed

theorem REDIS_DSN_credential_segment_witness:
  "REDIS_PASSWORD (default_settings\<lparr>REDIS_PASSWORD := None\<rparr>) = None
   \<and> REDIS_DSN (default_settings\<lparr>REDIS_PASSWORD := None\<rparr>) =
       ''redis://'' @ REDIS_HOST default_settings @ '':'' @ str_int (REDIS_PORT default_settings)
         @ ''/'' @ str_int (REDIS_DB default_settings)
   \<and> REDIS_PASSWORD (default_settings\<lparr>REDIS_PASSWORD := Some ''pw''\<rparr>) = Some ''pw''
   \<and> ''pw'' \<noteq> []
   \<and> REDIS_DSN (default_settings\<lparr>REDIS_PASSWORD := Some ''pw''\<rparr>) =
       ''redis://'' @ ('':'' @ ''pw'' @ ''@'') @ REDIS_HOST default_settings @ '':''
         @ str_int (REDIS_PORT default_settings) @ ''/'' @ str_int (REDIS_DB default_settings)"
  using REDIS_DSN_credential_segment [of "default_settings\<lparr>REDIS_PASSWORD := None\<rparr>"]
    REDIS_DSN_credential_segment [of "default_settings\<lparr>REDIS_PASSWORD := Some ''pw''\<rparr>"]
  by simp

text \<open>
  C7.  With the environment \<open>production\<close>, a secret key shorter than 32 characters makes
  the construction of Settings fail, and a key of 32 or more characters passes the
  validation of its field and the construction succeeds with that key.
\<close>

theorem production_secret_key_length:
  assumes "in_ENVIRONMENT inp = Some ''production''" and "in_SECRET_KEY inp = Some key"
  shows "(length key < 32 \<longrightarrow> Settings_init inp = Inl [(''SECRET_KEY'', string_too_short 32)])
       \<and> (32 \<le> length key \<longrightarrow>
            field_SECRET_KEY inp = Inr key
            \<and> (\<exists>s. Settings_init inp = Inr s \<and> SECRET_KEY s = key
                  \<and> ENVIRONMENT s = ''production''))"
proof -
  have "field_ENVIRONMENT inp = Inr ''production''"
    using assms(1) by (simp add: field_ENVIRONMENT_valid)
  then show ?thesis
    using assms(2)
    by (simp add: Settings_init_def field_SECRET_KEY_def check_SECRET_KEY_def
          validate_secret_key_def field_errors_def)
qed

theorem production_secret_key_length_witness:
  "in_ENVIRONMENT (no_input\<lparr>in_ENVIRONMENT := Some ''production'', in_SECRET_KEY := Some ''short''\<rparr>)
     = Some ''production''
   \<and> length ''short'' < 32
   \<and> Settings_init (no_input\<lparr>in_ENVIRONMENT := Some ''production'', in_SECRET_KEY := Some ''short''\<rparr>)
       = Inl [(''SECRET_KEY'', string_too_short 32)]
   \<and> 32 \<le> length (replicate 32 CHR ''k'')
   \<and> field_SECRET_KEY
       (no_input\<lparr>in_ENVIRONMENT := Some ''production'',
                 in_SECRET_KEY := Some (replicate 32 CHR ''k'')\<rparr>)
       = Inr (replicate 32 CHR ''k'')"
  using production_secret_key_length
      [of "no_input\<lparr>in_ENVIRONMENT := Some ''production'', in_SECRET_KEY := Some ''short''\<rparr>"
          "''short''"]
    production_secret_key_length
      [of "no_input\<lparr>in_ENVIRONMENT := Some ''production'',
                    in_SECRET_KEY := Some (replicate 32 CHR ''k'')\<rparr>"
          "replicate 32 CHR ''k''"]
  by simp

text \<open>
  C9.  In each of the three environments a secret key shorter than 32 characters makes
  the construction of Settings fail, and the failure is the minimum length declared on
  the field: outside production the validator accepts the same key.
\<close>

theorem short_secret_key_any_environment:
  assumes "env \<in> {''development'', ''staging'', ''production''}"
    and "in_ENVIRONMENT inp = Some env" and "in_SECRET_KEY inp = Some key"
    and "length key < 32"
  shows "Settings_init inp = Inl [(''SECRET_KEY'', string_too_short 32)]
       \<and> check_SECRET_KEY key (Some env) = Inl (string_too_short 32)
       \<and> (env \<noteq> ''production'' \<longrightarrow> validate_secret_key key (Some env) = Inr key)"
proof -
  have "field_ENVIRONMENT inp = Inr env"
    using assms(1,2) by (rule field_ENVIRONMENT_valid)
  then show ?thesis
    using assms(3,4)
    by (simp add: Settings_init_def field_SECRET_KEY_def check_SECRET_KEY_def
          validate_secret_key_def field_errors_def)
qed

theorem short_secret_key_any_environment_witness:
  "''staging'' \<in> {''development'', ''staging'', ''production''}
   \<and> length ''short'' < 32
   \<and> Settings_init (no_input\<lparr>in_ENVIRONMENT := Some ''staging'', in_SECRET_KEY := Some ''short''\<rparr>)
       = Inl [(''SECRET_KEY'', string_too_short 32)]
   \<and> validate_secret_key ''short'' (Some ''staging'') = Inr ''short''"
  using short_secret_key_any_environment
      [of "''staging''"
          "no_input\<lparr>in_ENVIRONMENT := Some ''staging'', in_SECRET_KEY := Some ''short''\<rparr>"
          "''short''"]
  by simp

section \<open>Invariants of the managers\<close>

lemma db_initialize_success:
  assumes "db_initialize settings w self = (Inr (), self', evs)"
  shows "db_initialized self'"
    and "db_initialized self \<Longrightarrow> self' = self"
    and "\<not> db_initialized self \<Longrightarrow> session_factory self' \<noteq> None \<and> db_engine self' \<noteq> None"
  using assms
  by (auto simp: db_initialize_def Let_def split: if_splits option.splits)

lemma db_initialize_failure:
  assumes "db_initialize settings w self = (Inl e, self', evs)"
  shows "\<not> db_initialized self'"
  using assms
  by (auto simp: db_initialize_def Let_def split: if_splits option.splits)

lemma db_close_state:
  assumes "db_close w self = (r, self', evs)"
  shows "session_factory self' = session_factory self"
    and "db_engine self' = db_engine self"
    and "db_initialized self' \<Longrightarrow> db_initialized self"
  using assms
  by (auto simp: db_close_def split: option.splits)

lemma db_reachable_session_factory:
  "db_reachable self \<Longrightarrow> db_initialized self \<Longrightarrow> session_factory self \<noteq> None"
proof (induction rule: db_reachable.induct)
  case db_fresh
  then show ?case by (simp add: DatabaseManager_init_def)
next
  case (db_after_initialize self settings w r self' evs)
  show ?case
  proof (cases r)
    case (Inl e)
    with db_after_initialize show ?thesis using db_initialize_failure by blast
  next
    case (Inr u)
    with db_after_initialize have ok: "db_initialize settings w self = (Inr (), self', evs)"
      by simp
    show ?thesis
    proof (cases "db_initialized self")
      case True
      with ok have "self' = self" by (rule db_initialize_success(2))
      with True db_after_initialize show ?thesis by simp
    next
      case False
      with ok show ?thesis using db_initialize_success(3) by blast
    qed
  qed
next
  case (db_after_close self w r self' evs)
  then show ?case using db_close_state by metis
qed

lemma db_never_initialized_flag: "db_never_initialized self \<Longrightarrow> \<not> db_initialized self"
proof (induction rule: db_never_initialized.induct)
  case db_never_fresh
  then show ?case by (simp add: DatabaseManager_init_def)
next
  case (db_never_failed self settings w e self' evs)
  then show ?case using db_initialize_failure by blast
next
  case (db_never_close self w r self' evs)
  then show ?case using db_close_state(3) by blast
qed

lemma redis_initialize_success:
  assumes "redis_initialize settings w self = (Inr (), self', evs)"
  shows "redis_initialized self'"
    and "redis_initialized self \<Longrightarrow> self' = self"
    and "\<not> redis_initialized self \<Longrightarrow> client self' \<noteq> None \<and> pool self' \<noteq> None"
  using assms
  by (auto simp: redis_initialize_def Let_def split: if_splits option.splits sum.splits)

lemma redis_initialize_failure:
  assumes "redis_initialize settings w self = (Inl e, self', evs)"
  shows "\<not> redis_initialized self'"
  using assms
  by (auto simp: redis_initialize_def Let_def split: if_splits option.splits sum.splits)

lemma redis_close_state:
  assumes "redis_close w self = (r, self', evs)"
  shows "client self' = client self"
    and "pool self' = pool self"
    and "redis_initialized self' \<Longrightarrow> redis_initialized self"
  using assms
  by (auto simp: redis_close_def split: prod.splits sum.splits)

lemma redis_reachable_client:
  "redis_reachable self \<Longrightarrow> redis_initialized self \<Longrightarrow> client self \<noteq> None"
proof (induction rule: redis_reachable.induct)
  case redis_fresh
  then show ?case by (simp add: RedisManager_init_def)
next
  case (redis_after_initialize self settings w r self' evs)
  show ?case
  proof (cases r)
    case (Inl e)
    with redis_after_initialize show ?thesis using redis_initialize_failure by blast
  next
    case (Inr u)
    with redis_after_initialize
    have ok: "redis_initialize settings w self = (Inr (), self', evs)"
      by simp
    show ?thesis
    proof (cases "redis_initialized self")
      case True
      with ok have "self' = self" by (rule redis_initialize_success(2))
      with True redis_after_initialize show ?thesis by simp
    next
      case False
      with ok show ?thesis using redis_initialize_success(3) by blast
    qed
  qed
next
  case (redis_after_close self w r self' evs)
  then show ?case using redis_close_state by metis
qed

lemma redis_never_initialized_flag: "redis_never_initialized self \<Longrightarrow> \<not> redis_initialized self"
proof (induction rule: redis_never_initialized.induct)
  case redis_never_fresh
  then show ?case by (simp add: RedisManager_init_def)
next
  case (redis_never_failed self settings w e self' evs)
  then show ?case using redis_initialize_failure by blast
next
  case (redis_never_close self w r self' evs)
  then show ?case using redis_close_state(3) by blast
qed

section \<open>The scenarios\<close>

lemma db_started:
  "db_initialize default_settings db_up DatabaseManager_init =
     (Inr (), db_started,
      [CreateAsyncEngine (POSTGRES_DSN default_settings), AsyncSessionmaker, AsyncScopedSession,
       Log INFO ''Database initialized successfully''])"
  by (simp add: db_started_def factory_started_def engine_started_def db_initialize_def
        db_up_def DatabaseManager_init_def Let_def)

lemma redis_started:
  "redis_initialize default_settings redis_up RedisManager_init =
     (Inr (), redis_started,
      [ConnectionPoolFromUrl (REDIS_DSN default_settings), RedisFromPool, ClientPing,
       Log INFO ''Redis initialized successfully''])"
  by (simp add: redis_started_def pool_started_def redis_initialize_def redis_up_def
        RedisManager_init_def Let_def)

lemma db_started_reachable: "db_reachable db_started"
  using db_after_initialize [OF db_fresh db_started] .

lemma redis_started_reachable: "redis_reachable redis_started"
  using redis_after_initialize [OF redis_fresh redis_started] .

section \<open>Lifecycle of the managers\<close>

text \<open>
  C5.  For each manager, \<open>initialize\<close> called on an initialized manager returns without
  raising, leaves the manager as it was and makes no call into the library: its only
  effect is the warning in the log.  A manager is initialized after every call of
  \<open>initialize\<close> that returned normally, so this holds for every second call.
\<close>

theorem initialize_twice_is_noop:
  "(db_initialized dm \<longrightarrow>
      db_initialize s dw dm = (Inr (), dm, [Log WARNING ''Database already initialized'']))
   \<and> (db_initialize s1 dw1 dm0 = (Inr (), dm1, devs) \<longrightarrow>
      db_initialize s dw dm1 = (Inr (), dm1, [Log WARNING ''Database already initialized'']))
   \<and> (redis_initialized rm \<longrightarrow>
      redis_initialize s rw rm = (Inr (), rm, [Log WARNING ''Redis already initialized'']))
   \<and> (redis_initialize s1 rw1 rm0 = (Inr (), rm1, revs) \<longrightarrow>
      redis_initialize s rw rm1 = (Inr (), rm1, [Log WARNING ''Redis already initialized'']))"
proof -
  have db: "db_initialize s dw m = (Inr (), m, [Log WARNING ''Database already initialized''])"
    if "db_initialized m" for m
    using that by (simp add: db_initialize_def)
  have redis:
    "redis_initialize s rw m = (Inr (), m, [Log WARNING ''Redis already initialized''])"
    if "redis_initialized m" for m
    using that by (simp add: redis_initialize_def)
  show ?thesis
    using db redis db_initialize_success(1) redis_initialize_success(1) by blast
qed

theorem initialize_twice_is_noop_witness:
  "db_initialized db_started
   \<and> db_initialize default_settings db_up DatabaseManager_init =
       (Inr (), db_started,
        [CreateAsyncEngine (POSTGRES_DSN default_settings), AsyncSessionmaker,
         AsyncScopedSession, Log INFO ''Database initialized successfully''])
   \<and> db_initialize default_settings db_up db_started =
       (Inr (), db_started, [Log WARNING ''Database already initialized''])
   \<and> redis_initialized redis_started
   \<and> redis_initialize default_settings redis_up RedisManager_init =
       (Inr (), redis_started,
        [ConnectionPoolFromUrl (REDIS_DSN default_settings), RedisFromPool, ClientPing,
         Log INFO ''Redis initialized successfully''])
   \<and> redis_initialize default_settings redis_up redis_started =
       (Inr (), redis_started, [Log WARNING ''Redis already initialized''])"
  using initialize_twice_is_noop
      [where dm = db_started and s = default_settings and dw = db_up
         and ?s1.0 = default_settings and ?dw1.0 = db_up and ?dm0.0 = DatabaseManager_init
         and ?dm1.0 = db_started and rm = redis_started and rw = redis_up
         and ?rw1.0 = redis_up and ?rm0.0 = RedisManager_init and ?rm1.0 = redis_started]
    db_started redis_started
  by (simp add: db_started_def redis_started_def)

text \<open>
  C4.  As long as no call of \<open>initialize\<close> has returned normally, \<open>get_session\<close>,
  \<open>get_client\<close> and \<open>get_client_context\<close> raise the lifecycle error of their manager,
  and the block under \<open>get_session\<close> is not run.  After a call of \<open>initialize\<close> that
  returned normally, each of them hands out a session or the client.
\<close>

theorem accessors_need_initialize:
  "(db_never_initialized dm \<longrightarrow>
      get_session_enter dm = (Inl db_not_initialized, [])
      \<and> with_get_session dw dm body = (Inl db_not_initialized, []))
   \<and> (redis_never_initialized rm \<longrightarrow>
      get_client rm = Inl redis_not_initialized
      \<and> get_client_context_enter rm = Inl redis_not_initialized)
   \<and> (db_reachable dm0 \<and> db_initialize s dw0 dm0 = (Inr (), dm1, devs) \<longrightarrow>
      (\<exists>f. get_session_enter dm1 = (Inr (AsyncSession f), [SessionFactoryCall])))
   \<and> (redis_reachable rm0 \<and> redis_initialize s rw0 rm0 = (Inr (), rm1, revs) \<longrightarrow>
      (\<exists>c. get_client rm1 = Inr c \<and> get_client_context_enter rm1 = Inr c))"
proof -
  have a: "get_session_enter dm = (Inl db_not_initialized, [])
        \<and> with_get_session dw dm body = (Inl db_not_initialized, [])"
    if "db_never_initialized dm"
    using db_never_initialized_flag [OF that]
    by (simp add: get_session_enter_def with_get_session_def)
  have b: "get_client rm = Inl redis_not_initialized
        \<and> get_client_context_enter rm = Inl redis_not_initialized"
    if "redis_never_initialized rm"
    using redis_never_initialized_flag [OF that]
    by (simp add: get_client_def get_client_context_enter_def)
  have c: "\<exists>f. get_session_enter dm1 = (Inr (AsyncSession f), [SessionFactoryCall])"
    if r: "db_reachable dm0" and i: "db_initialize s dw0 dm0 = (Inr (), dm1, devs)"
  proof -
    have flag: "db_initialized dm1" using i by (rule db_initialize_success(1))
    have "db_reachable dm1" using r i by (rule db_after_initialize)
    then have "session_factory dm1 \<noteq> None" using flag by (rule db_reachable_session_factory)
    with flag show ?thesis by (auto simp: get_session_enter_def)
  qed
  have d: "\<exists>c. get_client rm1 = Inr c \<and> get_client_context_enter rm1 = Inr c"
    if r: "redis_reachable rm0" and i: "redis_initialize s rw0 rm0 = (Inr (), rm1, revs)"
  proof -
    have flag: "redis_initialized rm1" using i by (rule redis_initialize_success(1))
    have "redis_reachable rm1" using r i by (rule redis_after_initialize)
    then have "client rm1 \<noteq> None" using flag by (rule redis_reachable_client)
    with flag show ?thesis by (auto simp: get_client_def get_client_context_enter_def)
  qed
  show ?thesis using a b c d by blast
qed

theorem accessors_need_initialize_witness:
  "db_never_initialized DatabaseManager_init
   \<and> get_session_enter DatabaseManager_init = (Inl db_not_initialized, [])
   \<and> redis_never_initialized RedisManager_init
   \<and> get_client RedisManager_init = Inl redis_not_initialized
   \<and> get_client_context_enter RedisManager_init = Inl redis_not_initialized
   \<and> db_reachable DatabaseManager_init
   \<and> db_initialize default_settings db_up DatabaseManager_init =
       (Inr (), db_started,
        [CreateAsyncEngine (POSTGRES_DSN default_settings), AsyncSessionmaker,
         AsyncScopedSession, Log INFO ''Database initialized successfully''])
   \<and> get_session_enter db_started = (Inr (AsyncSession factory_started), [SessionFactoryCall])
   \<and> redis_reachable RedisManager_init
   \<and> redis_initialize default_settings redis_up RedisManager_init =
       (Inr (), redis_started,
        [ConnectionPoolFromUrl (REDIS_DSN default_settings), RedisFromPool, ClientPing,
         Log INFO ''Redis initialized successfully''])
   \<and> get_client redis_started = Inr (Redis_from_pool pool_started)
   \<and> get_client_context_enter redis_started = Inr (Redis_from_pool pool_started)"
  using accessors_need_initialize
      [where dm = DatabaseManager_init and rm = RedisManager_init
         and ?dm0.0 = DatabaseManager_init and s = default_settings and ?dw0.0 = db_up
         and ?dm1.0 = db_started and ?rm0.0 = RedisManager_init and ?rw0.0 = redis_up
         and ?rm1.0 = redis_started]
    db_never_fresh redis_never_fresh db_fresh redis_fresh db_started redis_started
  by (simp add: get_session_enter_def get_client_def get_client_context_enter_def
        db_started_def redis_started_def DatabaseManager_init_def RedisManager_init_def)

text \<open>
  C10.  \<open>get_redis\<close> looks at the client only.  After an \<open>initialize\<close> that returned
  normally and a \<open>close\<close> that returned normally, the flag is reset and the client, on
  which \<open>aclose\<close> was called, is still assigned: \<open>get_redis\<close> returns it, and
  \<open>get_client\<close> raises the lifecycle error.
\<close>

theorem get_redis_returns_closed_client:
  assumes "redis_reachable m0"
    and "redis_initialize s w m0 = (Inr (), m1, evs1)"
    and "redis_close w' m1 = (Inr (), m2, evs2)"
  shows "\<not> redis_initialized m2
       \<and> (\<exists>c. client m2 = Some c \<and> client m1 = Some c \<and> get_redis m2 = Inr c)
       \<and> ClientAclose \<in> set evs2
       \<and> get_client m2 = Inl redis_not_initialized"
proof -
  have flag: "redis_initialized m1" using assms(2) by (rule redis_initialize_success(1))
  have "redis_reachable m1" using assms(1,2) by (rule redis_after_initialize)
  then have "client m1 \<noteq> None" using flag by (rule redis_reachable_client)
  then obtain c where c: "client m1 = Some c" by auto
  show ?thesis
    using assms(3) c
    by (auto simp: redis_close_def aclose_if_set_def get_redis_def get_client_def
          split: option.splits)
qed

theorem get_redis_returns_closed_client_witness:
  "redis_reachable RedisManager_init
   \<and> redis_initialize default_settings redis_up RedisManager_init =
       (Inr (), redis_started,
        [ConnectionPoolFromUrl (REDIS_DSN default_settings), RedisFromPool, ClientPing,
         Log INFO ''Redis initialized successfully''])
   \<and> redis_close redis_up redis_started =
       (Inr (), redis_started\<lparr>redis_initialized := False\<rparr>,
        [ClientAclose, PoolAclose, Log INFO ''Redis connections closed''])
   \<and> get_redis (redis_started\<lparr>redis_initialized := False\<rparr>) = Inr (Redis_from_pool pool_started)
   \<and> get_client (redis_started\<lparr>redis_initialized := False\<rparr>) = Inl redis_not_initialized"
  using get_redis_returns_closed_client
      [where ?m0.0 = RedisManager_init and s = default_settings and w = redis_up
         and ?m1.0 = redis_started and w' = redis_up
         and ?m2.0 = "redis_started\<lparr>redis_initialized := False\<rparr>"
         and ?evs2.0 = "[ClientAclose, PoolAclose, Log INFO ''Redis connections closed'']"]
    redis_fresh redis_started
  by (simp add: redis_close_def aclose_if_set_def redis_up_def redis_started_def
        get_redis_def get_client_def)

text \<open>
  C6.  \<open>health_check\<close> of either manager returns a truth value whatever the state of the
  manager and whatever the library calls do.  The database check returns \<open>True\<close> only
  when the manager is initialized and has a session factory and neither \<open>execute\<close>,
  \<open>commit\<close> nor \<open>close\<close> raises; the cache check returns \<open>True\<close> only when a client is
  assigned and \<open>ping\<close> returns \<open>True\<close>.  In every other case the result is \<open>False\<close>.
\<close>

theorem manager_health_check_never_raises:
  "fst (db_health_check dw dm) =
     Inr (db_initialized dm \<and> session_factory dm \<noteq> None \<and> execute_raises dw = None
            \<and> commit_raises dw = None \<and> close_raises dw = None)
   \<and> fst (redis_health_check rw rm) = Inr (client rm \<noteq> None \<and> ping_result rw = Inr True)"
proof
  show "fst (db_health_check dw dm) =
     Inr (db_initialized dm \<and> session_factory dm \<noteq> None \<and> execute_raises dw = None
            \<and> commit_raises dw = None \<and> close_raises dw = None)"
    by (auto simp: db_health_check_def with_get_session_def get_session_enter_def
          session_execute_def get_session_exit_def session_except_def session_finally_def
          split: option.splits)
  show "fst (redis_health_check rw rm) = Inr (client rm \<noteq> None \<and> ping_result rw = Inr True)"
    by (auto simp: redis_health_check_def split: option.splits sum.splits)
qed

theorem manager_health_check_never_raises_witness:
  "db_health_check (db_up\<lparr>execute_raises := Some (LibraryError ''connection refused'')\<rparr>) db_started =
     (Inr False,
      [SessionFactoryCall, SessionExecute ''SELECT 1'', SessionRollback,
       Log ERROR ''Database session error: connection refused'', SessionClose,
       Log ERROR ''Database health check failed: connection refused''])
   \<and> fst (db_health_check db_up db_started) = Inr True
   \<and> fst (db_health_check db_up DatabaseManager_init) = Inr False
   \<and> redis_health_check (redis_up\<lparr>ping_result := Inl (LibraryError ''timeout'')\<rparr>) redis_started =
       (Inr False, [ClientPing, Log ERROR ''Redis health check failed: timeout''])
   \<and> fst (redis_health_check redis_up redis_started) = Inr True
   \<and> fst (redis_health_check redis_up RedisManager_init) = Inr False"
  using manager_health_check_never_raises
      [of "db_up\<lparr>execute_raises := Some (LibraryError ''connection refused'')\<rparr>" db_started
          "redis_up\<lparr>ping_result := Inl (LibraryError ''timeout'')\<rparr>" redis_started]
    manager_health_check_never_raises [of db_up db_started redis_up redis_started]
    manager_health_check_never_raises [of db_up DatabaseManager_init redis_up RedisManager_init]
  by (simp add: db_health_check_def with_get_session_def get_session_enter_def
        session_execute_def get_session_exit_def session_except_def session_finally_def
        redis_health_check_def db_up_def redis_up_def db_started_def redis_started_def
        DatabaseManager_init_def RedisManager_init_def)

end
